theory Spec2Isabelle
  imports Complex_Main
begin

section \<open>Transient balance equations of a stirred mixing vessel\<close>

text \<open>
  A shallow embedding of \<^verbatim>\<open>transientBalanceEquation.py\<close>. Numbers are modelled as
  \<^typ>\<open>real\<close>: every arithmetic expression keeps the shape it has in the source, but
  rounding, overflow and the special values of binary floating point are not modelled.
  A division whose divisor is zero is an explicit failure of the model: on Python floats
  it raises \<^verbatim>\<open>ZeroDivisionError\<close>, on numpy scalars it yields \<^verbatim>\<open>inf\<close> or \<^verbatim>\<open>nan\<close>, and
  both are what the specification calls a domain error or a non-finite result. The
  converse is not modelled: on binary floating point a division by a non-zero divisor
  can overflow to \<^verbatim>\<open>inf\<close>, so a result \<open>Inr\<close> of the model states the value of the
  expression over the reals and does not state that the computed double is finite.
\<close>

subsection \<open>Errors and primitive operations\<close>

datatype error = IndexError | ZeroDivisionError | ValueError | IntegrationError

text \<open>
  \<^verbatim>\<open>a / b\<close> on floats, as exact division: the failure is the zero divisor, and the
  overflow of a quotient with a non-zero divisor is not represented.
\<close>

definition truediv :: "real \<Rightarrow> real \<Rightarrow> error + real" where
  "truediv a b = (if b = 0 then Inl ZeroDivisionError else Inr (a / b))"

text \<open>\<^verbatim>\<open>xs[i]\<close> for a non-negative index \<open>i\<close>.\<close>

definition getitem :: "'a list \<Rightarrow> nat \<Rightarrow> error + 'a" where
  "getitem xs i = (if i < length xs then Inr (xs ! i) else Inl IndexError)"

text \<open>\<^verbatim>\<open>xs[-1]\<close>.\<close>

definition last_row :: "'a list \<Rightarrow> error + 'a" where
  "last_row xs = (if xs = [] then Inl IndexError else Inr (last xs))"

text \<open>\<^verbatim>\<open>xs[i] = v\<close> for a non-negative index \<open>i\<close>; the array keeps its length.\<close>

definition setitem :: "'a list \<Rightarrow> nat \<Rightarrow> 'a \<Rightarrow> error + 'a list" where
  "setitem xs i v = (if i < length xs then Inr (xs[i := v]) else Inl IndexError)"

text \<open>\<^verbatim>\<open>np.ones(n)\<close>, \<^verbatim>\<open>arr * c\<close> and the slice assignment \<^verbatim>\<open>arr[k:] = c\<close>.\<close>

definition ones :: "nat \<Rightarrow> real list" where
  "ones n = replicate n 1"

definition scale :: "real list \<Rightarrow> real \<Rightarrow> real list" where
  "scale arr c = map (\<lambda>x. x * c) arr"

definition setslice_from :: "'a list \<Rightarrow> nat \<Rightarrow> 'a \<Rightarrow> 'a list" where
  "setslice_from arr k c = take k arr @ replicate (length arr - k) c"

text \<open>
  \<^verbatim>\<open>np.linspace(start, stop, num)\<close> with the default \<^verbatim>\<open>endpoint=True\<close>, after numpy's
  documentation: \<open>num\<close> evenly spaced samples over the closed interval, the last one
  set to \<open>stop\<close> when there is more than one sample.
\<close>

definition linspace :: "real \<Rightarrow> real \<Rightarrow> nat \<Rightarrow> real list" where
  "linspace start stop num =
     (let d = num - 1;
          delta = stop - start;
          y = map real [0..<num];
          y = (if d > 0 then scale y (delta / real d) else scale y delta);
          y = map (\<lambda>x. x + start) y
      in if num > 1 then y[num - 1 := stop] else y)"

text \<open>
  \<^verbatim>\<open>np.vstack\<close> of one-dimensional arrays: the arrays become the rows of a matrix and
  must all have the same length. \<^verbatim>\<open>data.T\<close> is the transposed matrix.
\<close>

definition vstack :: "real list list \<Rightarrow> error + real list list" where
  "vstack arrs =
     (case arrs of
        [] \<Rightarrow> Inl ValueError
      | a # rest \<Rightarrow>
          if list_all (\<lambda>b. length b = length a) rest then Inr arrs else Inl ValueError)"

definition ndarray_T :: "real list list \<Rightarrow> real list list" where
  "ndarray_T m =
     (case m of
        [] \<Rightarrow> []
      | a # rest \<Rightarrow> map (\<lambda>j. map (\<lambda>row. row ! j) m) [0..<length a])"

text \<open>
  \<^verbatim>\<open>np.savetxt(fname, data, delimiter=...)\<close> with no header: one line per row, the
  formatted entries of the row joined by the delimiter. The number format
  (\<^verbatim>\<open>'%.18e'\<close>) is a parameter \<open>fmt\<close>; the file is the list of its lines.
\<close>

fun join :: "string \<Rightarrow> string list \<Rightarrow> string" where
  "join delimiter [] = []"
| "join delimiter [x] = x"
| "join delimiter (x # y # ys) = x @ delimiter @ join delimiter (y # ys)"

definition savetxt :: "(real \<Rightarrow> string) \<Rightarrow> string \<Rightarrow> real list list \<Rightarrow> string list" where
  "savetxt fmt delimiter data = map (\<lambda>row. join delimiter (map fmt row)) data"

subsection \<open>The vessel model\<close>

text \<open>
  \<^verbatim>\<open>def vessel(x, t, q, qf, caf, tf)\<close>. The source rebinds \<^verbatim>\<open>t\<close> to \<^verbatim>\<open>x[2]\<close> before
  any use, so the time argument is shadowed by the temperature; the bound variable \<open>t\<close>
  of the third \<open>case\<close> does the same here.
\<close>

definition vessel :: "real list \<Rightarrow> real \<Rightarrow> real \<Rightarrow> real \<Rightarrow> real \<Rightarrow> real \<Rightarrow> error + real list" where
  "vessel x t q qf caf tf =
     (case getitem x 0 of Inl e \<Rightarrow> Inl e | Inr v \<Rightarrow>
     (case getitem x 1 of Inl e \<Rightarrow> Inl e | Inr ca \<Rightarrow>
     (case getitem x 2 of Inl e \<Rightarrow> Inl e | Inr t \<Rightarrow>
     (let rA = 0;
          dVdt = qf - q
      in
     (case truediv (qf * caf - q * ca) v of Inl e \<Rightarrow> Inl e | Inr species_in \<Rightarrow>
     (case truediv (ca * dVdt) v of Inl e \<Rightarrow> Inl e | Inr species_dil \<Rightarrow>
     (let dCadt = species_in - rA - species_dil in
     (case truediv (qf * tf - q * t) v of Inl e \<Rightarrow> Inl e | Inr energy_in \<Rightarrow>
     (case truediv (t * dVdt) v of Inl e \<Rightarrow> Inl e | Inr energy_dil \<Rightarrow>
     (let dTdt = energy_in - energy_dil in
      Inr [dVdt, dCadt, dTdt]))))))))))"

subsection \<open>The simulation loop\<close>

text \<open>
  \<^verbatim>\<open>odeint(func, y0, ts, args=inputs)\<close> is an external integrator and a parameter of the
  model: it receives the derivative function, the start state, the time points and the
  four inputs, and returns one state per time point, or fails.
\<close>

type_synonym deriv_fn =
  "real list \<Rightarrow> real \<Rightarrow> real \<Rightarrow> real \<Rightarrow> real \<Rightarrow> real \<Rightarrow> error + real list"

type_synonym integrator =
  "deriv_fn \<Rightarrow> real list \<Rightarrow> real list \<Rightarrow> real \<times> real \<times> real \<times> real \<Rightarrow> error + real list list"

text \<open>
  The variables the loop assigns: the result arrays \<^verbatim>\<open>V\<close>, \<^verbatim>\<open>Ca\<close>, \<^verbatim>\<open>T\<close> and the
  start state \<^verbatim>\<open>y0\<close> of the next step. A failing run carries the values they had when
  the exception was raised.
\<close>

type_synonym sim_state = "real list \<times> real list \<times> real list \<times> real list"

text \<open>One pass through the body of \<^verbatim>\<open>for i in range(len(t)-1)\<close>, statement by statement.\<close>

definition step ::
  "integrator \<Rightarrow> real list \<Rightarrow> real list \<Rightarrow> real list \<Rightarrow> real list \<Rightarrow> real list \<Rightarrow>
   nat \<Rightarrow> sim_state \<Rightarrow> (error \<times> sim_state) + sim_state" where
  "step odeint t q qf Caf Tf i st =
     (case st of (V, Ca, T, y0) \<Rightarrow>
     (case getitem q i of Inl e \<Rightarrow> Inl (e, st) | Inr q_i \<Rightarrow>
     (case getitem qf i of Inl e \<Rightarrow> Inl (e, st) | Inr qf_i \<Rightarrow>
     (case getitem Caf i of Inl e \<Rightarrow> Inl (e, st) | Inr Caf_i \<Rightarrow>
     (case getitem Tf i of Inl e \<Rightarrow> Inl (e, st) | Inr Tf_i \<Rightarrow>
     (case getitem t i of Inl e \<Rightarrow> Inl (e, st) | Inr t_i \<Rightarrow>
     (case getitem t (i + 1) of Inl e \<Rightarrow> Inl (e, st) | Inr t_next \<Rightarrow>
     (case odeint vessel y0 [t_i, t_next] (q_i, qf_i, Caf_i, Tf_i) of
        Inl e \<Rightarrow> Inl (e, st) | Inr y \<Rightarrow>
     (case last_row y of Inl e \<Rightarrow> Inl (e, st) | Inr y_last \<Rightarrow>
     (case getitem y_last 0 of Inl e \<Rightarrow> Inl (e, st) | Inr v \<Rightarrow>
     (case setitem V (i + 1) v of Inl e \<Rightarrow> Inl (e, st) | Inr V' \<Rightarrow>
     (case getitem y_last 1 of Inl e \<Rightarrow> Inl (e, (V', Ca, T, y0)) | Inr c \<Rightarrow>
     (case setitem Ca (i + 1) c of Inl e \<Rightarrow> Inl (e, (V', Ca, T, y0)) | Inr Ca' \<Rightarrow>
     (case getitem y_last 2 of Inl e \<Rightarrow> Inl (e, (V', Ca', T, y0)) | Inr temp \<Rightarrow>
     (case setitem T (i + 1) temp of Inl e \<Rightarrow> Inl (e, (V', Ca', T, y0)) | Inr T' \<Rightarrow>
      Inr (V', Ca', T', y_last))))))))))))))))"

text \<open>The loop over a list of indices; an exception ends it.\<close>

fun loop ::
  "integrator \<Rightarrow> real list \<Rightarrow> real list \<Rightarrow> real list \<Rightarrow> real list \<Rightarrow> real list \<Rightarrow>
   nat list \<Rightarrow> sim_state \<Rightarrow> (error \<times> sim_state) + sim_state" where
  "loop odeint t q qf Caf Tf [] st = Inr st"
| "loop odeint t q qf Caf Tf (i # rest) st =
     (case step odeint t q qf Caf Tf i st of
        Inl failure \<Rightarrow> Inl failure
      | Inr st' \<Rightarrow> loop odeint t q qf Caf Tf rest st')"

text \<open>
  The storage for the results and the loop, as a function of the grid, the four input
  sequences and the initial condition, which the script holds in module-level
  variables. \<^verbatim>\<open>range(len(t)-1)\<close> is empty for an empty grid, as \<open>[0..<0 - 1]\<close> is.
\<close>

definition simulate ::
  "integrator \<Rightarrow> real list \<Rightarrow> real list \<Rightarrow> real list \<Rightarrow> real list \<Rightarrow> real list \<Rightarrow>
   real \<Rightarrow> real \<Rightarrow> real \<Rightarrow> (error \<times> sim_state) + sim_state" where
  "simulate odeint t q qf Caf Tf V0 Ca0 T0 =
     (let y0 = [V0, Ca0, T0];
          V = scale (ones (length t)) V0;
          Ca = scale (ones (length t)) Ca0;
          T = scale (ones (length t)) T0
      in loop odeint t q qf Caf Tf [0..<length t - 1] (V, Ca, T, y0))"

text \<open>The values of the assigned variables when a run ends, normally or not.\<close>

definition final_state :: "(error \<times> sim_state) + sim_state \<Rightarrow> sim_state" where
  "final_state r = (case r of Inl (e, st) \<Rightarrow> st | Inr st \<Rightarrow> st)"

text \<open>
  Two states of the loop agree outside a set \<open>W\<close> of indices: the result arrays have the
  same lengths and the same entries at every index that is not in \<open>W\<close>.
\<close>

definition unchanged_outside :: "nat set \<Rightarrow> sim_state \<Rightarrow> sim_state \<Rightarrow> bool" where
  "unchanged_outside W st st' =
     (case st of (V, Ca, T, y0) \<Rightarrow>
      (case st' of (V', Ca', T', y0') \<Rightarrow>
         length V' = length V \<and> length Ca' = length Ca \<and> length T' = length T \<and>
         (\<forall>j. j \<notin> W \<longrightarrow> V' ! j = V ! j \<and> Ca' ! j = Ca ! j \<and> T' ! j = T ! j)))"

subsection \<open>The result table and the data file\<close>

definition script_data ::
  "integrator \<Rightarrow> real list \<Rightarrow> real list \<Rightarrow> real list \<Rightarrow> real list \<Rightarrow> real list \<Rightarrow>
   real \<Rightarrow> real \<Rightarrow> real \<Rightarrow> error + real list list" where
  "script_data odeint t q qf Caf Tf V0 Ca0 T0 =
     (case simulate odeint t q qf Caf Tf V0 Ca0 T0 of
        Inl (e, st) \<Rightarrow> Inl e
      | Inr (V, Ca, T, y0) \<Rightarrow>
          (case vstack [t, qf, q, Tf, Caf, V, Ca, T] of
             Inl e \<Rightarrow> Inl e
           | Inr data \<Rightarrow> Inr (ndarray_T data)))"

definition script_file ::
  "integrator \<Rightarrow> (real \<Rightarrow> string) \<Rightarrow> real list \<Rightarrow> real list \<Rightarrow> real list \<Rightarrow> real list \<Rightarrow>
   real list \<Rightarrow> real \<Rightarrow> real \<Rightarrow> real \<Rightarrow> error + string list" where
  "script_file odeint fmt t q qf Caf Tf V0 Ca0 T0 =
     (case script_data odeint t q qf Caf Tf V0 Ca0 T0 of
        Inl e \<Rightarrow> Inl e
      | Inr data \<Rightarrow> Inr (savetxt fmt '','' data))"

subsection \<open>The composed run\<close>

text \<open>
  The module-level values of the script, named after its variables \<^verbatim>\<open>t\<close>, \<^verbatim>\<open>qf\<close>,
  \<^verbatim>\<open>q\<close>, \<^verbatim>\<open>Caf\<close>, \<^verbatim>\<open>Tf\<close>, \<^verbatim>\<open>V0\<close>, \<^verbatim>\<open>Ca0\<close> and \<^verbatim>\<open>T0\<close>.
\<close>

definition script_V0 :: real where "script_V0 = 1.0"
definition script_Ca0 :: real where "script_Ca0 = 0.0"
definition script_T0 :: real where "script_T0 = 350.0"

definition script_t :: "real list" where
  "script_t = linspace 0 10 100"

definition script_qf :: "real list" where
  "script_qf = setslice_from (scale (ones (length script_t)) 5.2) 50 5.1"

definition script_q :: "real list" where
  "script_q = scale (ones (length script_t)) 5.0"

definition script_Caf :: "real list" where
  "script_Caf = setslice_from (scale (ones (length script_t)) 1.0) 30 0.5"

definition script_Tf :: "real list" where
  "script_Tf = setslice_from (scale (ones (length script_t)) 300.0) 70 325.0"

definition script :: "integrator \<Rightarrow> (real \<Rightarrow> string) \<Rightarrow> error + string list" where
  "script odeint fmt =
     script_file odeint fmt script_t script_q script_qf script_Caf script_Tf
       script_V0 script_Ca0 script_T0"

subsection \<open>The contract of the integrator, and a sample integrator\<close>

text \<open>
  \<^verbatim>\<open>odeint\<close> documents the shape of its result: one row per time point, each row as
  long as the start state.
\<close>

definition odeint_shape :: "integrator \<Rightarrow> bool" where
  "odeint_shape odeint \<longleftrightarrow>
     (\<forall>func y0 ts args y. odeint func y0 ts args = Inr y \<longrightarrow>
        length y = length ts \<and> (\<forall>row \<in> set y. length row = length y0))"

text \<open>
  A single explicit Euler step over a two-point interval. It stands for the integrator
  wherever a run is evaluated on concrete inputs.
\<close>

definition euler_odeint :: integrator where
  "euler_odeint func y0 ts args =
     (case args of (q, qf, caf, tf) \<Rightarrow>
     (case ts of
        [t0, t1] \<Rightarrow>
          (case func y0 t0 q qf caf tf of
             Inl e \<Rightarrow> Inl e
           | Inr dydt \<Rightarrow>
               if length dydt = length y0
               then Inr [y0, map (\<lambda>(y, dy). y + (t1 - t0) * dy) (zip y0 dydt)]
               else Inl IntegrationError)
      | _ \<Rightarrow> Inl IntegrationError))"

text \<open>A number format that writes only the sign, to evaluate the file on concrete inputs.\<close>

definition sign_fmt :: "real \<Rightarrow> string" where
  "sign_fmt x = (if x < 0 then ''-'' else if x = 0 then ''0'' else ''+'')"

subsection \<open>Facts about the vessel model\<close>

lemma vessel_nonzero:
  "V \<noteq> 0 \<Longrightarrow>
   vessel [V, Ca, T] t q qf caf tf =
     Inr [qf - q,
          (qf * caf - q * Ca) / V - 0 - Ca * (qf - q) / V,
          (qf * tf - q * T) / V - T * (qf - q) / V]"
  by (simp add: vessel_def getitem_def truediv_def Let_def)

text \<open>
  C1. For a state \<open>(V, Ca, T)\<close> with \<open>V \<noteq> 0\<close>, any time argument and any boundary
  inputs, the derivative function returns the triple with \<open>dV/dt = qf - q\<close>,
  \<open>dCa/dt = (qf * caf - q * Ca) / V - rA - Ca * (dV/dt) / V\<close> where \<open>rA\<close> is the
  constant 0, and \<open>dT/dt = (qf * tf - q * T) / V - T * (dV/dt) / V\<close>.
\<close>

theorem C1_vessel_equations:
  assumes "V \<noteq> 0"
  shows "vessel [V, Ca, T] t q qf caf tf =
     (let rA = 0; dVdt = qf - q
      in Inr [dVdt,
              (qf * caf - q * Ca) / V - rA - Ca * dVdt / V,
              (qf * tf - q * T) / V - T * dVdt / V])"
  using assms by (simp add: vessel_nonzero Let_def)

theorem C1_vessel_equations_witness:
  "(1::real) \<noteq> 0 \<and> vessel [1, 0, 350] 0 5 (26/5) 1 300 = Inr [1/5, 26/5, -260]"
  using C1_vessel_equations [of 1 0 350 0 5 "26/5" 1 300] by simp

text \<open>
  C4. For a state with \<open>V \<noteq> 0\<close>: if \<open>qf = q\<close> the first component of the derivative
  triple is exactly 0; if moreover \<open>caf = Ca\<close> and \<open>tf = T\<close>, all three components are
  exactly 0.
\<close>

theorem C4_steady_state:
  assumes "V \<noteq> 0" and "qf = q"
  shows "(\<exists>dCadt dTdt. vessel [V, Ca, T] t q qf caf tf = Inr [0, dCadt, dTdt]) \<and>
         (caf = Ca \<and> tf = T \<longrightarrow> vessel [V, Ca, T] t q qf caf tf = Inr [0, 0, 0])"
  using assms by (simp add: vessel_nonzero)

theorem C4_steady_state_witness:
  "(2::real) \<noteq> 0 \<and> (5::real) = 5 \<and>
   (\<exists>dCadt dTdt. vessel [2, 1, 300] 0 5 5 3 350 = Inr [0, dCadt, dTdt]) \<and>
   vessel [2, 1, 300] 0 5 5 1 300 = Inr [0, 0, 0]"
  using C4_steady_state [of 2 5 5 1 300 0 3 350] C4_steady_state [of 2 5 5 1 300 0 1 300]
  by simp

text \<open>
  C9. The result of the derivative function does not depend on its time argument.
\<close>

theorem C9_time_independent:
  "vessel x t1 q qf caf tf = vessel x t2 q qf caf tf"
  by (simp add: vessel_def)

text \<open>
  C10. With the reaction rate fixed at 0 the species balance and the energy balance are
  the same function of their own pair of inputs: for \<open>V \<noteq> 0\<close>, the concentration
  derivative computed from the pair \<open>(a, b)\<close> as (concentration, feed concentration)
  equals the temperature derivative computed from the same pair as (temperature, feed
  temperature), whatever the other pair is. In particular the two components agree in
  one evaluation with \<open>Ca = T\<close> and \<open>caf = tf\<close>, and exchanging the two pairs exchanges
  the two components.
\<close>

theorem C10_species_energy_symmetry:
  assumes "V \<noteq> 0"
  shows "(\<exists>d1 d2. vessel [V, a, T] t q qf b tf = Inr d1 \<and>
                  vessel [V, Ca, a] t' q qf caf b = Inr d2 \<and>
                  d1 ! 1 = d2 ! 2) \<and>
         (\<exists>d. vessel [V, a, a] t q qf b b = Inr d \<and> d ! 1 = d ! 2) \<and>
         (\<exists>d1 d2. vessel [V, Ca, T] t q qf caf tf = Inr d1 \<and>
                  vessel [V, T, Ca] t q qf tf caf = Inr d2 \<and>
                  d1 ! 1 = d2 ! 2 \<and> d1 ! 2 = d2 ! 1)"
  using assms by (simp add: vessel_nonzero)

theorem C10_species_energy_symmetry_witness:
  "(2::real) \<noteq> 0 \<and>
   (\<exists>d1 d2. vessel [2, 1, 300] 0 4 6 3 350 = Inr d1 \<and>
            vessel [2, 300, 1] 0 4 6 350 3 = Inr d2 \<and>
            d1 ! 1 = d2 ! 2 \<and> d1 ! 2 = d2 ! 1)"
  using C10_species_energy_symmetry
          [where V = 2 and Ca = 1 and T = 300 and t = 0 and q = 4 and qf = 6 and caf = 3 and tf = 350]
  by simp

text \<open>
  C5 as stated fails on the code: at the negative volume \<open>V = -2\<close> every divisor is
  non-zero and the function returns an ordinary triple (each operation of this
  evaluation is exact on binary floating point as well).
\<close>

theorem C5_negative_volume_counterexample:
  "(-2::real) \<le> 0 \<and> vessel [-2, 1, 300] 0 4 6 3 350 = Inr [2, -6, -150]"
  by (simp add: vessel_def getitem_def truediv_def Let_def)

text \<open>
  C5, amended. The derivative function has no guard on the volume: it neither tests the
  sign of \<open>V\<close> nor rejects any state, so a positive volume stays a precondition on the
  caller. Every evaluation at \<open>V = 0\<close> fails in its first division (a domain error on
  Python floats, a non-finite result on numpy scalars), whatever the other entries of the
  state and the inputs are. Nothing is stated for negative volumes.
\<close>

theorem C5_fails_at_zero_volume:
  assumes "2 < length x" and "x ! 0 = 0"
  shows "vessel x t q qf caf tf = Inl ZeroDivisionError"
proof -
  from assms(1) have "x \<noteq> []" "1 < length x" by auto
  with assms show ?thesis
    by (simp add: vessel_def getitem_def truediv_def Let_def)
qed

theorem C5_fails_at_zero_volume_witness:
  "2 < length [0, 1, 300 :: real] \<and> [0, 1, 300 :: real] ! 0 = 0 \<and>
   vessel [0, 1, 300] 0 4 6 3 350 = Inl ZeroDivisionError"
  using C5_fails_at_zero_volume [of "[0, 1, 300]" 0 4 6 3 350] by simp


subsection \<open>Facts about the simulation loop\<close>

lemma getitem_Inr_iff: "getitem xs i = Inr x \<longleftrightarrow> i < length xs \<and> x = xs ! i"
  by (auto simp: getitem_def)

lemma setitem_Inr_iff: "setitem xs i v = Inr ys \<longleftrightarrow> i < length xs \<and> ys = xs[i := v]"
  by (auto simp: setitem_def)

lemma last_row_Inr_iff: "last_row xs = Inr r \<longleftrightarrow> xs \<noteq> [] \<and> r = last xs"
  by (auto simp: last_row_def)

text \<open>
  What a pass through the loop body that raises nothing has read, called and written.
\<close>

lemma step_result:
  "case step odeint t q qf Caf Tf i (V, Ca, T, y0) of
     Inl failure \<Rightarrow> True
   | Inr st' \<Rightarrow>
       i < length q \<and> i < length qf \<and> i < length Caf \<and> i < length Tf \<and> i + 1 < length t \<and>
       i + 1 < length V \<and> i + 1 < length Ca \<and> i + 1 < length T \<and>
       (\<exists>y. odeint vessel y0 [t ! i, t ! (i + 1)] (q ! i, qf ! i, Caf ! i, Tf ! i) = Inr y \<and>
            y \<noteq> [] \<and> 2 < length (last y) \<and>
            st' = (V[i + 1 := last y ! 0], Ca[i + 1 := last y ! 1], T[i + 1 := last y ! 2], last y))"
  unfolding step_def
  by (simp add: getitem_Inr_iff setitem_Inr_iff last_row_Inr_iff split: sum.split)

lemma step_InrD:
  assumes "step odeint t q qf Caf Tf i (V, Ca, T, y0) = Inr st'"
  shows "i < length q \<and> i < length qf \<and> i < length Caf \<and> i < length Tf \<and> i + 1 < length t \<and>
       i + 1 < length V \<and> i + 1 < length Ca \<and> i + 1 < length T \<and>
       (\<exists>y. odeint vessel y0 [t ! i, t ! (i + 1)] (q ! i, qf ! i, Caf ! i, Tf ! i) = Inr y \<and>
            y \<noteq> [] \<and> 2 < length (last y) \<and>
            st' = (V[i + 1 := last y ! 0], Ca[i + 1 := last y ! 1], T[i + 1 := last y ! 2], last y))"
  using step_result [where odeint = odeint and t = t and q = q and qf = qf and Caf = Caf and Tf = Tf
      and i = i and V = V and Ca = Ca and T = T and ?y0.0 = y0] assms by simp

text \<open>
  A pass through the loop body, failing or not, writes the result arrays at index
  \<open>i + 1\<close> only.
\<close>

lemma step_frame:
  "unchanged_outside {i + 1} (V, Ca, T, y0) (final_state (step odeint t q qf Caf Tf i (V, Ca, T, y0)))"
  unfolding step_def final_state_def unchanged_outside_def
  by (simp add: setitem_Inr_iff split: sum.split)

lemma unchanged_outside_refl: "unchanged_outside W st st"
  by (simp add: unchanged_outside_def split: prod.split)

lemma unchanged_outside_trans:
  "unchanged_outside W1 st1 st2 \<Longrightarrow> unchanged_outside W2 st2 st3 \<Longrightarrow>
   unchanged_outside (W1 \<union> W2) st1 st3"
  by (auto simp: unchanged_outside_def split: prod.splits)

lemma loop_frame:
  "unchanged_outside (Suc ` set idx) st (final_state (loop odeint t q qf Caf Tf idx st))"
proof (induction idx arbitrary: st)
  case Nil
  show ?case by (simp add: final_state_def unchanged_outside_refl)
next
  case (Cons i rest)
  obtain V Ca T y0 where st: "st = (V, Ca, T, y0)" by (cases st) auto
  have fr: "unchanged_outside {i + 1} st (final_state (step odeint t q qf Caf Tf i st))"
    unfolding st by (rule step_frame)
  show ?case
  proof (cases "step odeint t q qf Caf Tf i st")
    case (Inl failure)
    with fr have "unchanged_outside {i + 1} st (final_state (loop odeint t q qf Caf Tf (i # rest) st))"
      by (simp add: final_state_def)
    from unchanged_outside_trans [OF this unchanged_outside_refl [of "Suc ` set rest"]]
    show ?thesis by simp
  next
    case (Inr st')
    with fr have "unchanged_outside {i + 1} st st'" by (simp add: final_state_def)
    from unchanged_outside_trans [OF this Cons.IH [of st']] Inr
    show ?thesis by simp
  qed
qed

lemma loop_append:
  "loop odeint t q qf Caf Tf (xs @ ys) st =
     (case loop odeint t q qf Caf Tf xs st of
        Inl failure \<Rightarrow> Inl failure
      | Inr st' \<Rightarrow> loop odeint t q qf Caf Tf ys st')"
  by (induction xs arbitrary: st) (simp_all split: sum.split)

lemma list3: "length xs = 3 \<Longrightarrow> xs = [xs ! 0, xs ! 1, xs ! 2]"
  by (cases xs; cases "tl xs"; cases "tl (tl xs)") auto

text \<open>
  The invariant of the loop for an integrator that respects its shape contract: after
  \<open>k\<close> passes the next start state is the \<open>k\<close>-th entry of the result arrays, and each
  earlier pass has stored the last row of its integrator call.
\<close>

lemma loop_upto_chain:
  assumes shape: "odeint_shape odeint"
      and run: "loop odeint t q qf Caf Tf [0..<k] (Vi, Cai, Ti, [Vi ! 0, Cai ! 0, Ti ! 0]) = Inr (V, Ca, T, yk)"
  shows "yk = [V ! k, Ca ! k, T ! k] \<and>
         (\<forall>i<k. i < length q \<and> i < length qf \<and> i < length Caf \<and> i < length Tf \<and>
                 i + 1 < length t \<and>
                 (\<exists>y. odeint vessel [V ! i, Ca ! i, T ! i] [t ! i, t ! (i + 1)]
                         (q ! i, qf ! i, Caf ! i, Tf ! i) = Inr y \<and>
                      y \<noteq> [] \<and> last y = [V ! (i + 1), Ca ! (i + 1), T ! (i + 1)]))"
  using run
proof (induction k arbitrary: V Ca T yk)
  case 0
  then show ?case by auto
next
  case (Suc k)
  from Suc.prems obtain st where
    pre: "loop odeint t q qf Caf Tf [0..<k] (Vi, Cai, Ti, [Vi ! 0, Cai ! 0, Ti ! 0]) = Inr st" and
    last_step: "step odeint t q qf Caf Tf k st = Inr (V, Ca, T, yk)"
    by (auto simp: loop_append split: sum.splits)
  obtain V' Ca' T' y' where st: "st = (V', Ca', T', y')" by (cases st) auto
  from Suc.IH [OF pre [unfolded st]] have
    y': "y' = [V' ! k, Ca' ! k, T' ! k]" and
    old: "\<forall>i<k. i < length q \<and> i < length qf \<and> i < length Caf \<and> i < length Tf \<and>
                 i + 1 < length t \<and>
                 (\<exists>y. odeint vessel [V' ! i, Ca' ! i, T' ! i] [t ! i, t ! (i + 1)]
                         (q ! i, qf ! i, Caf ! i, Tf ! i) = Inr y \<and>
                      y \<noteq> [] \<and> last y = [V' ! (i + 1), Ca' ! (i + 1), T' ! (i + 1)])"
    by blast+
  from step_InrD [OF last_step [unfolded st]] obtain y where
    rng: "k < length q" "k < length qf" "k < length Caf" "k < length Tf" "k + 1 < length t"
         "k + 1 < length V'" "k + 1 < length Ca'" "k + 1 < length T'" and
    call: "odeint vessel y' [t ! k, t ! (k + 1)] (q ! k, qf ! k, Caf ! k, Tf ! k) = Inr y" and
    y: "y \<noteq> []" and
    new: "V = V'[k + 1 := last y ! 0]" "Ca = Ca'[k + 1 := last y ! 1]"
         "T = T'[k + 1 := last y ! 2]" "yk = last y"
    by auto
  from shape call y have "length (last y) = length y'"
    unfolding odeint_shape_def by (meson last_in_set)
  with y' have "length (last y) = 3" by simp
  then have ly: "last y = [last y ! 0, last y ! 1, last y ! 2]" by (rule list3)
  have nxt: "V ! (k + 1) = last y ! 0" "Ca ! (k + 1) = last y ! 1" "T ! (k + 1) = last y ! 2"
    using rng new by simp_all
  have same: "\<And>j. j \<le> k \<Longrightarrow> V ! j = V' ! j \<and> Ca ! j = Ca' ! j \<and> T ! j = T' ! j"
    using new by simp
  have yk: "yk = [V ! Suc k, Ca ! Suc k, T ! Suc k]"
    using ly nxt new(4) by simp
  have "\<And>i. i < Suc k \<Longrightarrow>
          i < length q \<and> i < length qf \<and> i < length Caf \<and> i < length Tf \<and>
          i + 1 < length t \<and>
          (\<exists>y. odeint vessel [V ! i, Ca ! i, T ! i] [t ! i, t ! (i + 1)]
                  (q ! i, qf ! i, Caf ! i, Tf ! i) = Inr y \<and>
               y \<noteq> [] \<and> last y = [V ! (i + 1), Ca ! (i + 1), T ! (i + 1)])"
  proof -
    fix i assume "i < Suc k"
    show "i < length q \<and> i < length qf \<and> i < length Caf \<and> i < length Tf \<and>
          i + 1 < length t \<and>
          (\<exists>y. odeint vessel [V ! i, Ca ! i, T ! i] [t ! i, t ! (i + 1)]
                  (q ! i, qf ! i, Caf ! i, Tf ! i) = Inr y \<and>
               y \<noteq> [] \<and> last y = [V ! (i + 1), Ca ! (i + 1), T ! (i + 1)])"
    proof (cases "i < k")
      case True
      then have "i \<le> k" "i + 1 \<le> k" by simp_all
      with same have "V ! i = V' ! i" "Ca ! i = Ca' ! i" "T ! i = T' ! i"
        "V ! (i + 1) = V' ! (i + 1)" "Ca ! (i + 1) = Ca' ! (i + 1)" "T ! (i + 1) = T' ! (i + 1)"
        by blast+
      with old True show ?thesis by simp
    next
      case False
      with \<open>i < Suc k\<close> have ik: "i = k" by simp
      from same [of k] y' have "y' = [V ! k, Ca ! k, T ! k]" by simp
      with call y ly nxt rng show ?thesis unfolding ik by simp
    qed
  qed
  with yk show ?case by blast
qed


lemma euler_shape: "odeint_shape euler_odeint"
  unfolding odeint_shape_def euler_odeint_def
  by (auto split: list.splits sum.splits if_splits prod.splits)

lemma simulate_frame:
  assumes "final_state (simulate odeint t q qf Caf Tf V0 Ca0 T0) = (V, Ca, T, y_end)"
  shows "length V = length t \<and> length Ca = length t \<and> length T = length t \<and>
         (t \<noteq> [] \<longrightarrow> V ! 0 = V0 \<and> Ca ! 0 = Ca0 \<and> T ! 0 = T0)"
proof -
  let ?init = "(scale (ones (length t)) V0, scale (ones (length t)) Ca0,
                scale (ones (length t)) T0, [V0, Ca0, T0])"
  have "unchanged_outside (Suc ` set [0..<length t - 1]) ?init
          (final_state (loop odeint t q qf Caf Tf [0..<length t - 1] ?init))"
    by (rule loop_frame)
  with assms have "unchanged_outside (Suc ` set [0..<length t - 1]) ?init (V, Ca, T, y_end)"
    by (simp add: simulate_def Let_def)
  then show ?thesis
    by (auto simp: unchanged_outside_def scale_def ones_def)
qed

lemma simulate_chain:
  assumes shape: "odeint_shape odeint"
      and run: "simulate odeint t q qf Caf Tf V0 Ca0 T0 = Inr (V, Ca, T, y_end)"
      and i: "i + 1 < length t"
  shows "i < length q \<and> i < length qf \<and> i < length Caf \<and> i < length Tf \<and>
         (\<exists>y. odeint vessel [V ! i, Ca ! i, T ! i] [t ! i, t ! (i + 1)]
                 (q ! i, qf ! i, Caf ! i, Tf ! i) = Inr y \<and>
              y \<noteq> [] \<and> last y = [V ! (i + 1), Ca ! (i + 1), T ! (i + 1)])"
proof -
  let ?Vi = "scale (ones (length t)) V0"
  let ?Cai = "scale (ones (length t)) Ca0"
  let ?Ti = "scale (ones (length t)) T0"
  from i have "0 < length t" by (cases t) simp_all
  then have "[V0, Ca0, T0] = [?Vi ! 0, ?Cai ! 0, ?Ti ! 0]"
    by (simp add: scale_def ones_def)
  with run have "loop odeint t q qf Caf Tf [0..<length t - 1]
                   (?Vi, ?Cai, ?Ti, [?Vi ! 0, ?Cai ! 0, ?Ti ! 0]) = Inr (V, Ca, T, y_end)"
    by (simp add: simulate_def Let_def)
  from loop_upto_chain [OF shape this] i show ?thesis by simp
qed

text \<open>
  The loop completes whenever every integrator call returns a non-empty sub-trajectory
  whose last row has at least three entries and each input sequence has an entry for
  every step.
\<close>

lemma step_InrI:
  assumes "i < length q" "i < length qf" "i < length Caf" "i < length Tf" "i + 1 < length t"
      and "i + 1 < length V" "i + 1 < length Ca" "i + 1 < length T"
      and "odeint vessel y0 [t ! i, t ! (i + 1)] (q ! i, qf ! i, Caf ! i, Tf ! i) = Inr y"
      and "y \<noteq> []" "2 < length (last y)"
  shows "step odeint t q qf Caf Tf i (V, Ca, T, y0) =
           Inr (V[i + 1 := last y ! 0], Ca[i + 1 := last y ! 1], T[i + 1 := last y ! 2], last y)"
  using assms by (auto simp: step_def getitem_def setitem_def last_row_def)

lemma loop_completes:
  assumes delivers: "\<And>y0 ts args. \<exists>y. odeint vessel y0 ts args = Inr y \<and> y \<noteq> [] \<and> 2 < length (last y)"
      and inputs: "k \<le> length q" "k \<le> length qf" "k \<le> length Caf" "k \<le> length Tf"
      and grid: "k \<le> length t - 1"
      and arrays: "length V = length t" "length Ca = length t" "length T = length t"
  shows "\<exists>st. loop odeint t q qf Caf Tf [0..<k] (V, Ca, T, y0) = Inr st"
  using inputs grid
proof (induction k)
  case 0
  show ?case by simp
next
  case (Suc k)
  then obtain st where pre: "loop odeint t q qf Caf Tf [0..<k] (V, Ca, T, y0) = Inr st"
    by auto
  obtain V' Ca' T' y' where st: "st = (V', Ca', T', y')" by (cases st) auto
  from loop_frame [of "[0..<k]" "(V, Ca, T, y0)" odeint t q qf Caf Tf] pre st arrays
  have len: "length V' = length t" "length Ca' = length t" "length T' = length t"
    by (simp_all add: final_state_def unchanged_outside_def)
  from delivers obtain y where
    y: "odeint vessel y' [t ! k, t ! (k + 1)] (q ! k, qf ! k, Caf ! k, Tf ! k) = Inr y"
       "y \<noteq> []" "2 < length (last y)"
    by blast
  from Suc.prems have "k < length q" "k < length qf" "k < length Caf" "k < length Tf"
    "k + 1 < length t"
    by simp_all
  with len y have "step odeint t q qf Caf Tf k (V', Ca', T', y') =
      Inr (V'[k + 1 := last y ! 0], Ca'[k + 1 := last y ! 1], T'[k + 1 := last y ! 2], last y)"
    by (intro step_InrI) simp_all
  with pre st show ?case by (simp add: loop_append)
qed

lemma simulate_completes:
  assumes "\<And>y0 ts args. \<exists>y. odeint vessel y0 ts args = Inr y \<and> y \<noteq> [] \<and> 2 < length (last y)"
      and "length t - 1 \<le> length q" "length t - 1 \<le> length qf"
          "length t - 1 \<le> length Caf" "length t - 1 \<le> length Tf"
  shows "\<exists>st. simulate odeint t q qf Caf Tf V0 Ca0 T0 = Inr st"
  unfolding simulate_def Let_def
  using assms by (intro loop_completes) (simp_all add: scale_def ones_def)

subsection \<open>Facts about the result table\<close>

lemma vstack_Inr_iff:
  "vstack [a, b, c, d, e, f, g, h] = Inr m \<longleftrightarrow>
     length b = length a \<and> length c = length a \<and> length d = length a \<and> length e = length a \<and>
     length f = length a \<and> length g = length a \<and> length h = length a \<and>
     m = [a, b, c, d, e, f, g, h]"
  by (auto simp: vstack_def)

lemma vstack_Inl: "vstack m = Inl e \<Longrightarrow> e = ValueError"
  by (auto simp: vstack_def split: list.splits if_splits)

lemma ndarray_T_8:
  "ndarray_T [a, b, c, d, e, f, g, h] =
     map (\<lambda>j. [a ! j, b ! j, c ! j, d ! j, e ! j, f ! j, g ! j, h ! j]) [0..<length a]"
  by (simp add: ndarray_T_def)

lemma join_8:
  "join d [x1, x2, x3, x4, x5, x6, x7, x8] =
     x1 @ d @ x2 @ d @ x3 @ d @ x4 @ d @ x5 @ d @ x6 @ d @ x7 @ d @ x8"
  by simp

lemma count_list_absent: "c \<notin> set xs \<Longrightarrow> count_list xs c = 0"
  by (induction xs) auto

lemma script_data_Inr:
  assumes "script_data odeint t q qf Caf Tf V0 Ca0 T0 = Inr data"
  shows "\<exists>V Ca T y_end.
           simulate odeint t q qf Caf Tf V0 Ca0 T0 = Inr (V, Ca, T, y_end) \<and>
           length q = length t \<and> length qf = length t \<and> length Caf = length t \<and>
           length Tf = length t \<and>
           data = map (\<lambda>j. [t ! j, qf ! j, q ! j, Tf ! j, Caf ! j, V ! j, Ca ! j, T ! j])
                    [0..<length t]"
proof (cases "simulate odeint t q qf Caf Tf V0 Ca0 T0")
  case (Inl failure)
  with assms show ?thesis by (simp add: script_data_def split: prod.splits)
next
  case (Inr st)
  obtain V Ca T y_end where st: "st = (V, Ca, T, y_end)" by (cases st) auto
  from assms Inr st obtain m where
    m: "vstack [t, qf, q, Tf, Caf, V, Ca, T] = Inr m" and data: "data = ndarray_T m"
    by (auto simp: script_data_def split: sum.splits)
  from m have len: "length qf = length t" "length q = length t" "length Tf = length t"
    "length Caf = length t" and m_eq: "m = [t, qf, q, Tf, Caf, V, Ca, T]"
    by (simp_all add: vstack_Inr_iff)
  from data m_eq have "data = map (\<lambda>j. [t ! j, qf ! j, q ! j, Tf ! j, Caf ! j, V ! j, Ca ! j, T ! j])
                    [0..<length t]"
    by (simp only: ndarray_T_8)
  with Inr st len show ?thesis by simp
qed

subsection \<open>Facts about the composed run\<close>

lemma script_t_eq: "script_t = map (\<lambda>i. 10 * real i / 99) [0..<100]"
  unfolding script_t_def linspace_def scale_def Let_def
  by (auto simp: nth_list_update intro!: nth_equalityI)

lemma script_t_length: "length script_t = 100"
  by (simp add: script_t_eq)


subsection \<open>Runs on concrete inputs\<close>

lemmas eval_defs = simulate_def script_data_def script_file_def step_def euler_odeint_def vessel_def
  getitem_def setitem_def last_row_def truediv_def ones_def scale_def vstack_def ndarray_T_def
  savetxt_def sign_fmt_def final_state_def Let_def upt_rec

lemma run_two_steps:
  "simulate euler_odeint [0, 1/10, 1/5] [5, 5, 5] [6, 6, 6] [1, 1, 1] [350, 350, 350] 1 0 350 =
     Inr ([1, 11/10, 6/5], [0, 3/5, 9/11], [350, 350, 350], [6/5, 9/11, 350])"
  by (simp add: eval_defs)

lemma run_short_schedule:
  "simulate euler_odeint [0, 1, 2] [5] [6, 6, 6] [0, 0, 0] [350, 350, 350] 1 0 350 =
     Inl (IndexError, [1, 2, 1], [0, 0, 0], [350, 350, 350], [2, 0, 350])"
  by (simp add: eval_defs)

lemma run_long_schedule:
  "simulate euler_odeint [0, 1/10] [5, 5, 5] [6, 6] [1, 1] [350, 350] 1 0 350 =
     Inr ([1, 11/10], [0, 3/5], [350, 350], [11/10, 3/5, 350])"
  by (simp add: eval_defs)

lemma file_one_step:
  "script_file euler_odeint sign_fmt [0, 1/10] [5, 5] [6, 6] [1, 1] [350, 350] 1 0 350 =
     Inr [''0,+,+,+,+,+,0,+'', ''+,+,+,+,+,+,+,+'']"
  by (simp add: eval_defs)

lemma sign_fmt_no_comma: "CHR '','' \<notin> set (sign_fmt x)"
  by (simp add: sign_fmt_def)

subsection \<open>Properties of the driver\<close>

text \<open>
  C2. For a grid of length \<open>N \<ge> 2\<close> and every \<open>i\<close> from 0 to \<open>N - 2\<close>, a run that
  completes has computed entry \<open>i + 1\<close> of the trajectory as the last state of the
  integrator's sub-trajectory for the two-point interval \<open>[t[i], t[i+1]]\<close>, started from
  entry \<open>i\<close> of the trajectory (the initial state when \<open>i = 0\<close>), with the four inputs
  sampled at index \<open>i\<close>; nothing but the last row of the sub-trajectory is kept. The
  integrator is any function that returns rows as long as its start state, as
  \<^verbatim>\<open>odeint\<close> documents.
\<close>

theorem C2_step_chaining:
  assumes "odeint_shape odeint"
      and "simulate odeint t q qf Caf Tf V0 Ca0 T0 = Inr (V, Ca, T, y_end)"
      and "i + 1 < length t"
  shows "i < length q \<and> i < length qf \<and> i < length Caf \<and> i < length Tf \<and>
         (\<exists>y. odeint vessel [V ! i, Ca ! i, T ! i] [t ! i, t ! (i + 1)]
                 (q ! i, qf ! i, Caf ! i, Tf ! i) = Inr y \<and>
              y \<noteq> [] \<and> last y = [V ! (i + 1), Ca ! (i + 1), T ! (i + 1)]) \<and>
         [V ! 0, Ca ! 0, T ! 0] = [V0, Ca0, T0]"
proof -
  from assms(2) have "final_state (simulate odeint t q qf Caf Tf V0 Ca0 T0) = (V, Ca, T, y_end)"
    by (simp add: final_state_def)
  from simulate_frame [OF this] assms(3) have "[V ! 0, Ca ! 0, T ! 0] = [V0, Ca0, T0]"
    by auto
  with simulate_chain [OF assms] show ?thesis by simp
qed

theorem C2_step_chaining_witness:
  "odeint_shape euler_odeint \<and>
   simulate euler_odeint [0, 1/10, 1/5] [5, 5, 5] [6, 6, 6] [1, 1, 1] [350, 350, 350] 1 0 350 =
     Inr ([1, 11/10, 6/5], [0, 3/5, 9/11], [350, 350, 350], [6/5, 9/11, 350]) \<and>
   (1::nat) + 1 < length [0, 1/10, 1/5 :: real] \<and>
   (\<exists>y. euler_odeint vessel [11/10, 3/5, 350] [1/10, 1/5] (5, 6, 1, 350) = Inr y \<and>
        y \<noteq> [] \<and> last y = [6/5, 9/11, 350])"
  using C2_step_chaining [OF euler_shape run_two_steps, of 1] euler_shape run_two_steps
  by simp

text \<open>
  C3. When a run ends, normally or with an exception, the arrays \<^verbatim>\<open>V\<close>, \<^verbatim>\<open>Ca\<close> and
  \<^verbatim>\<open>T\<close> are as long as the time grid, and for a non-empty grid their entries at index 0
  are the initial condition \<open>(V0, Ca0, T0)\<close>: the loop never writes index 0.
\<close>

theorem C3_trajectory_length_and_start:
  assumes "final_state (simulate odeint t q qf Caf Tf V0 Ca0 T0) = (V, Ca, T, y_end)"
  shows "length V = length t \<and> length Ca = length t \<and> length T = length t \<and>
         (t \<noteq> [] \<longrightarrow> V ! 0 = V0 \<and> Ca ! 0 = Ca0 \<and> T ! 0 = T0)"
  using assms by (rule simulate_frame)

theorem C3_trajectory_length_and_start_witness:
  "final_state (simulate euler_odeint [0, 1/10, 1/5] [5, 5, 5] [6, 6, 6] [1, 1, 1]
     [350, 350, 350] 1 0 350) =
     ([1, 11/10, 6/5], [0, 3/5, 9/11], [350, 350, 350], [6/5, 9/11, 350]) \<and>
   [0, 1/10, 1/5 :: real] \<noteq> [] \<and>
   length [1, 11/10, 6/5 :: real] = length [0, 1/10, 1/5 :: real] \<and>
   [1, 11/10, 6/5 :: real] ! 0 = 1 \<and> [0, 3/5, 9/11 :: real] ! 0 = 0 \<and>
   [350, 350, 350 :: real] ! 0 = 350"
proof -
  have run: "final_state (simulate euler_odeint [0, 1/10, 1/5] [5, 5, 5] [6, 6, 6] [1, 1, 1]
     [350, 350, 350] 1 0 350) =
     ([1, 11/10, 6/5], [0, 3/5, 9/11], [350, 350, 350], [6/5, 9/11, 350])"
    by (simp add: run_two_steps final_state_def)
  from C3_trajectory_length_and_start [OF run] run show ?thesis by simp
qed

text \<open>
  C6 as stated fails on the code: no length is checked before the loop. With a grid of
  three points and an outlet-flow sequence of one entry, the first step is integrated and
  stored (\<^verbatim>\<open>V[1]\<close> becomes 2) before \<^verbatim>\<open>q[1]\<close> raises \<^verbatim>\<open>IndexError\<close>.
\<close>

theorem C6_partial_run_counterexample:
  "length [5 :: real] \<noteq> length [0, 1, 2 :: real] \<and>
   simulate euler_odeint [0, 1, 2] [5] [6, 6, 6] [0, 0, 0] [350, 350, 350] 1 0 350 =
     Inl (IndexError, [1, 2, 1], [0, 0, 0], [350, 350, 350], [2, 0, 350])"
  using run_short_schedule by simp

text \<open>
  C6, amended. A run whose input sequences do not all have the length of the time grid
  never writes the data file: it ends with an exception. There is no check before the
  loop; when the loop itself completes, the exception is the \<^verbatim>\<open>ValueError\<close> of
  \<^verbatim>\<open>np.vstack\<close>, raised after every step has been integrated.
\<close>

theorem C6_mismatch_never_completes:
  assumes "length q \<noteq> length t \<or> length qf \<noteq> length t \<or> length Caf \<noteq> length t \<or>
           length Tf \<noteq> length t"
  shows "(\<exists>e. script_file odeint fmt t q qf Caf Tf V0 Ca0 T0 = Inl e) \<and>
         (\<forall>st. simulate odeint t q qf Caf Tf V0 Ca0 T0 = Inr st \<longrightarrow>
               script_file odeint fmt t q qf Caf Tf V0 Ca0 T0 = Inl ValueError)"
proof -
  have no_data: "script_data odeint t q qf Caf Tf V0 Ca0 T0 \<noteq> Inr data" for data
    using script_data_Inr [of odeint t q qf Caf Tf V0 Ca0 T0 data] assms by auto
  then obtain e where e: "script_data odeint t q qf Caf Tf V0 Ca0 T0 = Inl e"
    by (cases "script_data odeint t q qf Caf Tf V0 Ca0 T0") auto
  have "e = ValueError" if "simulate odeint t q qf Caf Tf V0 Ca0 T0 = Inr st" for st
    using that e by (auto simp: script_data_def split: prod.splits sum.splits dest: vstack_Inl)
  with e show ?thesis by (simp add: script_file_def)
qed

theorem C6_mismatch_never_completes_witness:
  "length [5, 5, 5 :: real] \<noteq> length [0, 1/10 :: real] \<and>
   simulate euler_odeint [0, 1/10] [5, 5, 5] [6, 6] [1, 1] [350, 350] 1 0 350 =
     Inr ([1, 11/10], [0, 3/5], [350, 350], [11/10, 3/5, 350]) \<and>
   script_file euler_odeint sign_fmt [0, 1/10] [5, 5, 5] [6, 6] [1, 1] [350, 350] 1 0 350 =
     Inl ValueError"
  using C6_mismatch_never_completes [of "[5, 5, 5]" "[0, 1/10]" "[6, 6]" "[1, 1]" "[350, 350]"
          euler_odeint sign_fmt 1 0 350] run_long_schedule
  by simp

text \<open>
  C7. The data file of a run that completes has one line per grid index and no header
  line; line \<open>i\<close> is the row \<open>[t[i], qf[i], q[i], Tf[i], Caf[i], V[i], Ca[i], T[i]]\<close>
  of the table (time, inlet flow, outlet flow, feed temperature, feed concentration,
  volume, concentration, temperature), its 8 entries formatted and joined by commas; with
  a number format that writes no comma, each line holds exactly 7 commas.
\<close>

theorem C7_output_table:
  assumes "script_file odeint fmt t q qf Caf Tf V0 Ca0 T0 = Inr file"
  shows "\<exists>V Ca T y_end data.
           simulate odeint t q qf Caf Tf V0 Ca0 T0 = Inr (V, Ca, T, y_end) \<and>
           script_data odeint t q qf Caf Tf V0 Ca0 T0 = Inr data \<and>
           length data = length t \<and> length file = length t \<and>
           (\<forall>i<length t.
              data ! i = [t ! i, qf ! i, q ! i, Tf ! i, Caf ! i, V ! i, Ca ! i, T ! i] \<and>
              file ! i = join '','' (map fmt (data ! i)) \<and>
              ((\<forall>x. CHR '','' \<notin> set (fmt x)) \<longrightarrow> count_list (file ! i) CHR '','' = 7))"
proof -
  from assms obtain data where
    data: "script_data odeint t q qf Caf Tf V0 Ca0 T0 = Inr data" and
    file_eq: "file = savetxt fmt '','' data"
    by (auto simp: script_file_def split: sum.splits)
  from script_data_Inr [OF data] obtain V Ca T y_end where
    run: "simulate odeint t q qf Caf Tf V0 Ca0 T0 = Inr (V, Ca, T, y_end)" and
    rows: "data = map (\<lambda>j. [t ! j, qf ! j, q ! j, Tf ! j, Caf ! j, V ! j, Ca ! j, T ! j])
                    [0..<length t]"
    by blast
  have "data ! i = [t ! i, qf ! i, q ! i, Tf ! i, Caf ! i, V ! i, Ca ! i, T ! i] \<and>
        file ! i = join '','' (map fmt (data ! i)) \<and>
        ((\<forall>x. CHR '','' \<notin> set (fmt x)) \<longrightarrow> count_list (file ! i) CHR '','' = 7)"
    if "i < length t" for i
    using that by (simp add: rows file_eq savetxt_def count_list_absent)
  with run data rows file_eq show ?thesis by (simp add: savetxt_def)
qed

theorem C7_output_table_witness:
  "script_file euler_odeint sign_fmt [0, 1/10] [5, 5] [6, 6] [1, 1] [350, 350] 1 0 350 =
     Inr [''0,+,+,+,+,+,0,+'', ''+,+,+,+,+,+,+,+''] \<and>
   (\<forall>x. CHR '','' \<notin> set (sign_fmt x)) \<and>
   (\<exists>data. script_data euler_odeint [0, 1/10] [5, 5] [6, 6] [1, 1] [350, 350] 1 0 350 = Inr data \<and>
      length data = 2 \<and> ''+,+,+,+,+,+,+,+'' = join '','' (map sign_fmt (data ! 1)) \<and>
      count_list ''+,+,+,+,+,+,+,+'' CHR '','' = 7)"
  using C7_output_table [OF file_one_step] file_one_step sign_fmt_no_comma
  by auto

text \<open>
  C8. The composed run uses a grid of 100 evenly spaced points from 0 to 10, the
  initial condition \<open>(1, 0, 350)\<close>, and input sequences that are a constant baseline with
  one overwritten suffix: \<^verbatim>\<open>qf\<close> is 5.2 and becomes 5.1 from index 50, \<^verbatim>\<open>Caf\<close> is 1.0
  and becomes 0.5 from index 30, \<^verbatim>\<open>Tf\<close> is 300 and becomes 325 from index 70, and \<^verbatim>\<open>q\<close>
  is 5.0 at every index.
\<close>

theorem C8_composed_run:
  "script odeint fmt =
     script_file odeint fmt script_t script_q script_qf script_Caf script_Tf 1 0 350 \<and>
   script_t = map (\<lambda>i. 10 * real i / 99) [0..<100] \<and>
   length script_t = 100 \<and> script_t ! 0 = 0 \<and> script_t ! 99 = 10 \<and>
   script_qf = replicate 50 5.2 @ replicate 50 5.1 \<and>
   script_Caf = replicate 30 1.0 @ replicate 70 0.5 \<and>
   script_Tf = replicate 70 300.0 @ replicate 30 325.0 \<and>
   script_q = replicate 100 5.0"
proof -
  have run: "script odeint fmt =
     script_file odeint fmt script_t script_q script_qf script_Caf script_Tf 1 0 350"
    by (simp add: script_def script_V0_def script_Ca0_def script_T0_def)
  have grid: "script_t = map (\<lambda>i. 10 * real i / 99) [0..<100]"
    by (rule script_t_eq)
  have ends: "script_t ! 0 = 0" "script_t ! 99 = 10"
    by (simp_all add: script_t_eq)
  have inputs: "script_qf = replicate 50 5.2 @ replicate 50 5.1"
    "script_Caf = replicate 30 1.0 @ replicate 70 0.5"
    "script_Tf = replicate 70 300.0 @ replicate 30 325.0"
    "script_q = replicate 100 5.0"
    by (simp_all add: script_qf_def script_q_def script_Caf_def script_Tf_def script_t_length
        setslice_from_def scale_def ones_def)
  from run grid ends inputs script_t_length show ?thesis by blast
qed


end
